theory Spec2Isabelle
  imports Complex_Main "HOL-Library.Log_Nat"
begin

section \<open>Python values and exceptions\<close>

text \<open>
  The exceptions the modelled code can raise. \<open>External\<close> stands for any exception raised
  inside the input-injection library (pyautogui), for example its fail-safe exception.
\<close>

datatype py_error =
    ZeroDivisionError
  | OverflowError
  | KeyError string
  | AttributeError
  | TypeError
  | ValueError
  | OSError
  | JSONDecodeError
  | External string

text \<open>
  A value as \<open>json.load\<close> returns it. An object holds the items of the parsed \<open>dict\<close>
  (its keys are distinct); a float is held as the rational number it denotes.
\<close>

datatype json =
    JNull
  | JBool bool
  | JInt int
  | JNum rat
  | JStr string
  | JArr "json list"
  | JObj "(string \<times> json) list"

subsection \<open>Binary64 arithmetic\<close>

text \<open>
  Python's \<open>float\<close> is an IEEE 754 binary64 number: 53 significant bits, exponents from
  \<open>-1022\<close> to \<open>1023\<close>, round to nearest with ties to even. A finite float is modelled by
  the rational number it denotes (the sign of zero is not kept; no operation below
  produces a NaN).
\<close>

datatype pyfloat = Finite rat | PosInf | NegInf

definition pow2 :: "int \<Rightarrow> rat" where
  "pow2 e = (if 0 \<le> e then 2 ^ nat e else 1 / 2 ^ nat (- e))"

definition round_half_even :: "rat \<Rightarrow> int" where
  "round_half_even y =
     (let f = \<lfloor>y\<rfloor>; r = y - of_int f
      in if r < 1 / 2 then f
         else if 1 / 2 < r then f + 1
         else if even f then f else f + 1)"

text \<open>\<open>ilog2 x\<close> is the \<open>e\<close> with \<open>2 ^ e \<le> x < 2 ^ (e + 1)\<close>, for \<open>x > 0\<close>.\<close>

definition ilog2 :: "rat \<Rightarrow> int" where
  "ilog2 x =
     (let (a, b) = quotient_of x; d = bitlen a - bitlen b
      in if pow2 d \<le> x then d else d - 1)"

text \<open>
  Rounding of a positive rational to binary64: the result is a multiple of the quantum
  \<open>2 ^ (e - 52)\<close>, where \<open>e\<close> is the exponent of the argument, held at \<open>-1022\<close> in the
  subnormal range. \<open>None\<close> is overflow.
\<close>

definition round_pos :: "rat \<Rightarrow> rat option" where
  "round_pos x =
     (let e = max (ilog2 x) (- 1022);
          q = pow2 (e - 52);
          r = of_int (round_half_even (x / q)) * q
      in if pow2 1024 \<le> r then None else Some r)"

definition round_double :: "rat \<Rightarrow> pyfloat" where
  "round_double x =
     (if x = 0 then Finite 0
      else if 0 < x then (case round_pos x of None \<Rightarrow> PosInf | Some r \<Rightarrow> Finite r)
      else (case round_pos (- x) of None \<Rightarrow> NegInf | Some r \<Rightarrow> Finite (- r)))"

text \<open>\<open>a / b\<close> on two \<open>int\<close>s: correctly rounded, raising on a zero divisor and on overflow.\<close>

definition py_truediv :: "int \<Rightarrow> int \<Rightarrow> py_error + pyfloat" where
  "py_truediv a b =
     (if b = 0 then Inl ZeroDivisionError
      else (case round_double (of_int a / of_int b) of
              Finite r \<Rightarrow> Inr (Finite r)
            | _ \<Rightarrow> Inl OverflowError))"

text \<open>\<open>x * k\<close> for a float \<open>x\<close> and an \<open>int\<close> \<open>k\<close> that a float holds exactly, \<open>k > 0\<close>.\<close>

definition py_fmul :: "pyfloat \<Rightarrow> int \<Rightarrow> pyfloat" where
  "py_fmul x k =
     (case x of Finite r \<Rightarrow> round_double (r * of_int k) | PosInf \<Rightarrow> PosInf | NegInf \<Rightarrow> NegInf)"

text \<open>\<open>int(x)\<close> truncates towards zero and raises on an infinity.\<close>

definition py_int :: "pyfloat \<Rightarrow> py_error + int" where
  "py_int x =
     (case x of
        Finite r \<Rightarrow> Inr (if 0 \<le> r then \<lfloor>r\<rfloor> else \<lceil>r\<rceil>)
      | _ \<Rightarrow> Inl OverflowError)"

section \<open>The learning database\<close>

text \<open>
  The learning database file is written by \<open>save_learning_data\<close> only, so it has the shape
  the controller gives it. Timestamps are readings of the clock (the ISO formatting of
  \<open>datetime.now().isoformat()\<close> is not modelled).
\<close>

record stats =
  total :: int
  successful :: int
  last_run :: "rat option"

record curve_entry =
  timestamp :: rat
  workflow_id :: string
  success :: bool
  steps_completed :: int
  total_steps :: int

record learning_data =
  total_sessions :: int
  total_automations :: int
  workflow_improvements :: json
  success_rate :: "string \<rightharpoonup> stats"
  learning_curve :: "curve_entry list"

text \<open>A file that exists either yields a value or makes \<open>open\<close>/\<open>json.load\<close> raise.\<close>

datatype 'a stored = Unreadable py_error | Holds 'a


section \<open>Operations of Python on parsed JSON\<close>

text \<open>\<open>d.get(k, default)\<close>: only a \<open>dict\<close> has the method.\<close>

fun py_get :: "json \<Rightarrow> string \<Rightarrow> json \<Rightarrow> py_error + json" where
  "py_get (JObj kvs) k dflt = Inr (case map_of kvs k of Some v \<Rightarrow> v | None \<Rightarrow> dflt)"
| "py_get _ k dflt = Inl AttributeError"

fun starts_with :: "string \<Rightarrow> string \<Rightarrow> bool" where
  "starts_with [] s = True"
| "starts_with (p # ps) [] = False"
| "starts_with (p # ps) (c # cs) = (p = c \<and> starts_with ps cs)"

fun is_infix :: "string \<Rightarrow> string \<Rightarrow> bool" where
  "is_infix p [] = (p = [])"
| "is_infix p (c # cs) = (starts_with p (c # cs) \<or> is_infix p cs)"

text \<open>\<open>k in v\<close> for a string \<open>k\<close>: a key of a dict, a substring of a string, an element of a list.\<close>

fun py_contains :: "json \<Rightarrow> string \<Rightarrow> py_error + bool" where
  "py_contains (JObj kvs) k = Inr (k \<in> set (map fst kvs))"
| "py_contains (JStr s) k = Inr (is_infix k s)"
| "py_contains (JArr xs) k = Inr (JStr k \<in> set xs)"
| "py_contains _ k = Inl TypeError"

text \<open>\<open>v[k]\<close> for a string \<open>k\<close>.\<close>

fun py_index :: "json \<Rightarrow> string \<Rightarrow> py_error + json" where
  "py_index (JObj kvs) k = (case map_of kvs k of Some v \<Rightarrow> Inr v | None \<Rightarrow> Inl (KeyError k))"
| "py_index _ k = Inl TypeError"

text \<open>The items \<open>for x in v\<close> visits; \<open>len(v)\<close> is their number and raises where this does.\<close>

fun py_iter :: "json \<Rightarrow> py_error + json list" where
  "py_iter (JArr xs) = Inr xs"
| "py_iter (JStr s) = Inr (map (\<lambda>c. JStr [c]) s)"
| "py_iter (JObj kvs) = Inr (map (\<lambda>kv. JStr (fst kv)) kvs)"
| "py_iter _ = Inl TypeError"

text \<open>\<open>str.lower\<close> and \<open>str.upper\<close>, on the ASCII letters.\<close>

definition lower_char :: "char \<Rightarrow> char" where
  "lower_char c = (let n = of_char c :: nat in if 65 \<le> n \<and> n \<le> 90 then char_of (n + 32) else c)"

definition upper_char :: "char \<Rightarrow> char" where
  "upper_char c = (let n = of_char c :: nat in if 97 \<le> n \<and> n \<le> 122 then char_of (n - 32) else c)"

fun py_lower :: "json \<Rightarrow> py_error + string" where
  "py_lower (JStr s) = Inr (map lower_char s)"
| "py_lower _ = Inl AttributeError"

fun py_upper :: "json \<Rightarrow> py_error + string" where
  "py_upper (JStr s) = Inr (map upper_char s)"
| "py_upper _ = Inl AttributeError"

text \<open>\<open>s.split(c)\<close>: the pieces between the occurrences of \<open>c\<close>, empty ones included.\<close>

fun split_on :: "char \<Rightarrow> string \<Rightarrow> string list" where
  "split_on c [] = [[]]"
| "split_on c (x # xs) =
     (if x = c then [] # split_on c xs
      else (case split_on c xs of [] \<Rightarrow> [[x]] | y # ys \<Rightarrow> (x # y) # ys))"

text \<open>Truth value of a parsed value, as \<open>if not v\<close> tests it.\<close>

fun py_truthy :: "json \<Rightarrow> bool" where
  "py_truthy JNull = False"
| "py_truthy (JBool b) = b"
| "py_truthy (JInt n) = (n \<noteq> 0)"
| "py_truthy (JNum r) = (r \<noteq> 0)"
| "py_truthy (JStr s) = (s \<noteq> [])"
| "py_truthy (JArr xs) = (xs \<noteq> [])"
| "py_truthy (JObj kvs) = (kvs \<noteq> [])"

section \<open>The world of the dashboard controller\<close>

text \<open>Calls on the input-injection library, in the order they are made.\<close>

datatype call = Click json json | Write json | Hotkey "string list"

text \<open>
  The environment decides, from the calls made so far, whether a call on the
  input-injection library raises.
\<close>

type_synonym injector = "call list \<Rightarrow> call \<Rightarrow> py_error option"

text \<open>One constructor for each message \<open>log_feedback\<close> is called with, holding the values
  formatted into it.\<close>

datatype msg =
    NotFound
  | Starting string
  | TotalSteps nat
  | WaitPrepare
  | StoppedByUser
  | StepHeader nat nat string
  | Reasoning string
  | Clicking json
  | Clicked json json
  | NoCoordinates
  | Typing json
  | Typed
  | Waiting json
  | WaitComplete
  | Pressing json
  | HotkeyPressed
  | UnknownAction json
  | StepError py_error
  | AllComplete nat
  | Partial nat nat pyfloat
  | Critical py_error

record log_entry =
  log_timestamp :: rat
  log_message :: msg
  log_step :: "json option"

record world =
  automation_running :: bool
  execution_logs :: "log_entry list"
  workflow_files :: "string \<rightharpoonup> json stored"
  learning_db :: "learning_data stored option"
  learning_db_writable :: bool
  clock :: rat
  dispatched :: "call list"

text \<open>
  A piece of code that runs in a state and either raises or returns a value; the state it
  leaves is kept in both cases. \<open>and_then\<close> is sequencing: an exception skips what follows.
\<close>

type_synonym ('s, 'a) code = "'s \<Rightarrow> (py_error + 'a) \<times> 's"

type_synonym 'a action = "(world, 'a) code"

definition and_then :: "('s, 'a) code \<Rightarrow> ('a \<Rightarrow> ('s, 'b) code) \<Rightarrow> ('s, 'b) code" where
  "and_then m f w = (case m w of (Inl e, w') \<Rightarrow> (Inl e, w') | (Inr a, w') \<Rightarrow> f a w')"

definition lift :: "py_error + 'a \<Rightarrow> ('s, 'a) code" where
  "lift r w = (r, w)"

text \<open>\<open>log_feedback\<close> appends an entry to the shared log (the copy it prints to the console
  is not modelled).\<close>

definition log_feedback :: "msg \<Rightarrow> json option \<Rightarrow> world \<Rightarrow> world" where
  "log_feedback m s w =
     w\<lparr>execution_logs :=
         execution_logs w @ [\<lparr>log_timestamp = clock w, log_message = m, log_step = s\<rparr>]\<rparr>"

definition say :: "msg \<Rightarrow> json option \<Rightarrow> unit action" where
  "say m s w = (Inr (), log_feedback m s w)"

text \<open>\<open>time.sleep(v)\<close>: a negative length raises \<open>ValueError\<close>, a value that is no number
  \<open>TypeError\<close>. (A length too large for the platform's timer is not modelled.)\<close>

fun time_sleep :: "json \<Rightarrow> unit action" where
  "time_sleep (JInt n) w =
     (if n < 0 then (Inl ValueError, w) else (Inr (), w\<lparr>clock := clock w + of_int n\<rparr>))"
| "time_sleep (JNum r) w =
     (if r < 0 then (Inl ValueError, w) else (Inr (), w\<lparr>clock := clock w + r\<rparr>))"
| "time_sleep (JBool b) w = (Inr (), w\<lparr>clock := clock w + (if b then 1 else 0)\<rparr>)"
| "time_sleep _ w = (Inl TypeError, w)"

definition inject :: "injector \<Rightarrow> call \<Rightarrow> unit action" where
  "inject env c w =
     (let w' = w\<lparr>dispatched := dispatched w @ [c]\<rparr>
      in case env (dispatched w) c of Some e \<Rightarrow> (Inl e, w') | None \<Rightarrow> (Inr (), w'))"

section \<open>Learning recorder\<close>

definition default_learning_data :: learning_data where
  "default_learning_data =
     \<lparr>total_sessions = 0, total_automations = 0, workflow_improvements = JObj [],
      success_rate = Map.empty, learning_curve = []\<rparr>"

definition load_learning_data :: "world \<Rightarrow> py_error + learning_data" where
  "load_learning_data w =
     (case learning_db w of
        None \<Rightarrow> Inr default_learning_data
      | Some (Unreadable e) \<Rightarrow> Inl e
      | Some (Holds d) \<Rightarrow> Inr d)"

definition save_learning_data :: "learning_data \<Rightarrow> unit action" where
  "save_learning_data d w =
     (if learning_db_writable w then (Inr (), w\<lparr>learning_db := Some (Holds d)\<rparr>)
      else (Inl OSError, w))"

definition get_success_rate :: "world \<Rightarrow> string \<Rightarrow> py_error + int" where
  "get_success_rate w wid =
     (case load_learning_data w of
        Inl e \<Rightarrow> Inl e
      | Inr d \<Rightarrow>
          (let (t, s) = (case success_rate d wid of
                           None \<Rightarrow> (0, 0)
                         | Some st \<Rightarrow> (total st, successful st))
           in if t = 0 then Inr 0
              else (case py_truediv s t of
                      Inl e \<Rightarrow> Inl e
                    | Inr q \<Rightarrow> py_int (py_fmul q 100))))"

text \<open>The slice \<open>xs[-n:]\<close> for \<open>n > 0\<close>: the last \<open>n\<close> items, and all of a shorter list.\<close>

definition slice_last :: "nat \<Rightarrow> 'a list \<Rightarrow> 'a list" where
  "slice_last n xs = drop (length xs - n) xs"

text \<open>
  The update \<open>update_learning_data\<close> makes between loading and saving: \<open>ok\<close>, \<open>s\<close> and \<open>n\<close>
  are its arguments \<open>success\<close>, \<open>successful_steps\<close> and \<open>total_steps\<close>, \<open>now\<close> is what
  \<open>datetime.now()\<close> returns.
\<close>

definition apply_update ::
  "string \<Rightarrow> bool \<Rightarrow> int \<Rightarrow> int \<Rightarrow> rat \<Rightarrow> learning_data \<Rightarrow> learning_data" where
  "apply_update wid ok s n now d =
     (let st = (case success_rate d wid of
                  None \<Rightarrow> \<lparr>total = 0, successful = 0, last_run = None\<rparr>
                | Some st \<Rightarrow> st);
          st' = st\<lparr>total := total st + 1,
                   successful := (if ok then successful st + 1 else successful st),
                   last_run := Some now\<rparr>;
          curve = learning_curve d @
                    [\<lparr>timestamp = now, workflow_id = wid, success = ok,
                      steps_completed = s, total_steps = n\<rparr>]
      in d\<lparr>total_automations := total_automations d + 1,
           success_rate := (success_rate d)(wid \<mapsto> st'),
           learning_curve := slice_last 100 curve\<rparr>)"

definition update_learning_data :: "string \<Rightarrow> bool \<Rightarrow> int \<Rightarrow> int \<Rightarrow> unit action" where
  "update_learning_data wid ok s n w =
     (case load_learning_data w of
        Inl e \<Rightarrow> (Inl e, w)
      | Inr d \<Rightarrow> save_learning_data (apply_update wid ok s n (clock w) d) w)"


section \<open>Execution controller\<close>

definition reasoning_templates :: "(string \<times> string) list" where
  "reasoning_templates =
     [(''click'', ''I need to click this element to proceed with the workflow''),
      (''type'', ''I'' @ [CHR 0x27] @ ''m entering this text because it was part of the observed pattern''),
      (''wait'', ''I'' @ [CHR 0x27] @ ''m pausing to allow the UI to update and respond''),
      (''hotkey'', ''I'' @ [CHR 0x27] @ ''m using this keyboard shortcut as it was detected in the original workflow'')]"

text \<open>\<open>reasoning_templates.get(action, default)\<close>: a list or a dict is no dictionary key.\<close>

fun template_for :: "json \<Rightarrow> py_error + string" where
  "template_for (JStr a) =
     Inr (case map_of reasoning_templates a of
            Some t \<Rightarrow> t
          | None \<Rightarrow> ''Executing this step as part of the learned workflow'')"
| "template_for (JArr xs) = Inl TypeError"
| "template_for (JObj kvs) = Inl TypeError"
| "template_for _ = Inr ''Executing this step as part of the learned workflow''"

definition get_reasoning_for_action :: "json \<Rightarrow> json \<Rightarrow> py_error + string" where
  "get_reasoning_for_action stp workflow =
     (case py_get stp ''action'' JNull of
        Inl e \<Rightarrow> Inl e
      | Inr action \<Rightarrow>
     (case py_get stp ''description'' (JStr []) of
        Inl e \<Rightarrow> Inl e
      | Inr description \<Rightarrow>
     (case template_for action of
        Inl e \<Rightarrow> Inl e
      | Inr base_reason \<Rightarrow>
     (case py_lower description of
        Inl e \<Rightarrow> Inl e
      | Inr d \<Rightarrow>
          Inr (if is_infix ''save'' d
                 then base_reason @ ''. This appears to be a save operation.''
               else if is_infix ''open'' d
                 then base_reason @ ''. This will open the application or file.''
               else if is_infix ''close'' d
                 then base_reason @ ''. This will close the current window.''
               else base_reason)))))"

text \<open>\<open>'x' in args and 'y' in args\<close>\<close>

definition has_xy :: "json \<Rightarrow> py_error + bool" where
  "has_xy args =
     (case py_contains args ''x'' of
        Inl e \<Rightarrow> Inl e
      | Inr False \<Rightarrow> Inr False
      | Inr True \<Rightarrow> py_contains args ''y'')"

text \<open>\<open>keys.lower().replace(' ', '').split('+')\<close>\<close>

definition key_list_of :: "json \<Rightarrow> py_error + string list" where
  "key_list_of keys =
     (case py_lower keys of
        Inl e \<Rightarrow> Inl e
      | Inr s \<Rightarrow> Inr (split_on (CHR ''+'') (filter (\<lambda>c. c \<noteq> CHR '' '') s)))"

text \<open>The branches of the inner \<open>try\<close> block, up to the call of the injection library and
  the log entry after it.\<close>

definition do_click :: "injector \<Rightarrow> json \<Rightarrow> unit action" where
  "do_click env stp =
     and_then (lift (py_get stp ''target'' (JStr []))) (\<lambda>target.
     and_then (say (Clicking target) None) (\<lambda>_.
     and_then (lift (py_get stp ''args'' (JObj []))) (\<lambda>args.
     and_then (lift (has_xy args)) (\<lambda>both.
       if both then
         and_then (lift (py_index args ''x'')) (\<lambda>x.
         and_then (lift (py_index args ''y'')) (\<lambda>y.
         and_then (inject env (Click x y)) (\<lambda>_.
         say (Clicked x y) None)))
       else say NoCoordinates None))))"

definition arg_of :: "json \<Rightarrow> string \<Rightarrow> json \<Rightarrow> py_error + json" where
  "arg_of stp k dflt =
     (case py_get stp ''args'' (JObj []) of
        Inl e \<Rightarrow> Inl e
      | Inr args \<Rightarrow> py_get args k dflt)"

definition do_type :: "injector \<Rightarrow> json \<Rightarrow> unit action" where
  "do_type env stp =
     and_then (lift (arg_of stp ''text'' (JStr []))) (\<lambda>text.
     and_then (say (Typing text) None) (\<lambda>_.
     and_then (inject env (Write text)) (\<lambda>_.
     say Typed None)))"

definition do_wait :: "json \<Rightarrow> unit action" where
  "do_wait stp =
     and_then (lift (arg_of stp ''seconds'' (JInt 1))) (\<lambda>seconds.
     and_then (say (Waiting seconds) None) (\<lambda>_.
     and_then (time_sleep seconds) (\<lambda>_.
     say WaitComplete None)))"

definition do_hotkey :: "injector \<Rightarrow> json \<Rightarrow> unit action" where
  "do_hotkey env stp =
     and_then (lift (arg_of stp ''keys'' (JStr []))) (\<lambda>keys.
     and_then (say (Pressing keys) None) (\<lambda>_.
     and_then (lift (key_list_of keys)) (\<lambda>key_list.
     and_then (inject env (Hotkey key_list)) (\<lambda>_.
     say HotkeyPressed None))))"

definition perform_action :: "injector \<Rightarrow> json \<Rightarrow> json \<Rightarrow> unit action" where
  "perform_action env stp action =
     (if action = JStr ''click'' then do_click env stp
      else if action = JStr ''type'' then do_type env stp
      else if action = JStr ''wait'' then do_wait stp
      else if action = JStr ''hotkey'' then do_hotkey env stp
      else say (UnknownAction action) None)"

text \<open>
  The inner \<open>try\<close>: the step counts as successful when its branch and the delay after it
  raise nothing; an exception is logged and the step does not count.
\<close>

definition attempt :: "injector \<Rightarrow> json \<Rightarrow> json \<Rightarrow> bool action" where
  "attempt env stp action w =
     (case and_then (perform_action env stp action) (\<lambda>_. time_sleep (JNum (1 / 2))) w of
        (Inl e, w') \<Rightarrow> (Inr False, log_feedback (StepError e) None w')
      | (Inr _, w') \<Rightarrow> (Inr True, w'))"

text \<open>
  One pass through the body of the loop for step \<open>i\<close> of \<open>n\<close>, after the test of the
  running flag. The result says whether the step counted as successful; an exception
  raised before the inner \<open>try\<close> leaves the loop.
\<close>

definition loop_body :: "injector \<Rightarrow> json \<Rightarrow> nat \<Rightarrow> nat \<Rightarrow> json \<Rightarrow> bool action" where
  "loop_body env workflow i n stp =
     and_then (lift (py_get stp ''action'' JNull)) (\<lambda>action.
     and_then (lift (py_get stp ''description'' (JStr []))) (\<lambda>description.
     and_then (lift (py_upper action)) (\<lambda>upper.
     and_then (say (StepHeader i n upper) (Some stp)) (\<lambda>_.
     and_then (lift (get_reasoning_for_action stp workflow)) (\<lambda>reasoning.
     and_then (say (Reasoning reasoning) None) (\<lambda>_.
     attempt env stp action))))))"

fun for_loop ::
  "injector \<Rightarrow> json \<Rightarrow> nat \<Rightarrow> nat \<Rightarrow> json list \<Rightarrow> nat \<Rightarrow> nat action" where
  "for_loop env workflow n i [] succ w = (Inr succ, w)"
| "for_loop env workflow n i (stp # rest) succ w =
     (if \<not> automation_running w then (Inr succ, log_feedback StoppedByUser None w)
      else (case loop_body env workflow i n stp w of
              (Inl e, w') \<Rightarrow> (Inl e, w')
            | (Inr ok, w') \<Rightarrow>
                for_loop env workflow n (Suc i) rest (if ok then Suc succ else succ) w'))"

text \<open>After the loop: the success rate, its log entry, the learning update, the reset of
  the running flag.\<close>

definition finish :: "string \<Rightarrow> nat \<Rightarrow> nat \<Rightarrow> bool action" where
  "finish wid succ n =
     and_then (lift (py_truediv (int succ) (int n))) (\<lambda>q.
     and_then (say (if py_fmul q 100 = Finite 100 then AllComplete n
                    else Partial succ n (py_fmul q 100)) None) (\<lambda>_.
     and_then (update_learning_data wid (py_fmul q 100 = Finite 100) (int succ) (int n)) (\<lambda>_.
     (\<lambda>w. (Inr True, w\<lparr>automation_running := False\<rparr>)))))"

text \<open>The handler of the outer \<open>try\<close>.\<close>

definition critical :: "py_error \<Rightarrow> world \<Rightarrow> bool \<times> world" where
  "critical e w = (False, (log_feedback (Critical e) None w)\<lparr>automation_running := False\<rparr>)"

definition handled :: "bool action \<Rightarrow> world \<Rightarrow> bool \<times> world" where
  "handled m w = (case m w of (Inl e, w') \<Rightarrow> critical e w' | (Inr r, w') \<Rightarrow> (r, w'))"

text \<open>
  From the entry of \<open>execute_workflow_with_feedback\<close> to the loop: either it has returned
  (\<open>Inl\<close> of the value), or the loop starts on the workflow and its steps.
\<close>

definition prologue :: "string \<Rightarrow> (bool + json \<times> json list) action" where
  "prologue wid w0 =
     (let w = w0\<lparr>automation_running := True, execution_logs := []\<rparr>
      in case workflow_files w wid of
           None \<Rightarrow> (Inr (Inl False), log_feedback NotFound None w)
         | Some (Unreadable e) \<Rightarrow> (Inl e, w)
         | Some (Holds workflow) \<Rightarrow>
             (and_then (lift (py_get workflow ''automation_steps'' (JArr []))) (\<lambda>steps.
              and_then (say (Starting wid) None) (\<lambda>_.
              and_then (lift (py_iter steps)) (\<lambda>items.
              and_then (say (TotalSteps (length items)) None) (\<lambda>_.
              and_then (say WaitPrepare None) (\<lambda>_.
              and_then (time_sleep (JInt 3)) (\<lambda>_.
              lift (Inr (Inr (workflow, items))))))))) w))"

definition execute_workflow_with_feedback :: "injector \<Rightarrow> string \<Rightarrow> world \<Rightarrow> bool \<times> world" where
  "execute_workflow_with_feedback env wid w =
     (case prologue wid w of
        (Inl e, w1) \<Rightarrow> critical e w1
      | (Inr (Inl r), w1) \<Rightarrow> (r, w1)
      | (Inr (Inr (workflow, items)), w1) \<Rightarrow>
          handled (and_then (for_loop env workflow (length items) 1 items 0)
                           (\<lambda>succ. finish wid succ (length items))) w1)"

section \<open>The execution thread, one loop iteration at a time\<close>

text \<open>
  The local variables of \<open>execute_workflow_with_feedback\<close> at the head of its loop:
  \<open>f_index\<close> is the number of the next step, \<open>f_remaining\<close> the steps not yet visited.
\<close>

record frame =
  f_workflow_id :: string
  f_workflow :: json
  f_total :: nat
  f_index :: nat
  f_remaining :: "json list"
  f_successful :: nat

datatype thread = Created string | AtLoopHead frame | Returned bool

text \<open>
  One move of an execution thread: from its start to the head of the loop, one pass
  through the loop, or from the head of the loop to its return. Other threads and
  request handlers run between two moves. The thread reads the running flag at the head
  of the loop only, so a stop request handled during a pass has the effect of one handled
  at its end.
\<close>

definition thread_step :: "injector \<Rightarrow> thread \<Rightarrow> world \<Rightarrow> thread \<times> world" where
  "thread_step env t w =
     (case t of
        Created wid \<Rightarrow>
          (case prologue wid w of
             (Inl e, w1) \<Rightarrow> (Returned (fst (critical e w1)), snd (critical e w1))
           | (Inr (Inl r), w1) \<Rightarrow> (Returned r, w1)
           | (Inr (Inr (workflow, items)), w1) \<Rightarrow>
               (AtLoopHead \<lparr>f_workflow_id = wid, f_workflow = workflow,
                            f_total = length items, f_index = 1, f_remaining = items,
                            f_successful = 0\<rparr>, w1))
      | AtLoopHead f \<Rightarrow>
          (case f_remaining f of
             [] \<Rightarrow>
               (let (r, w') = handled (finish (f_workflow_id f) (f_successful f) (f_total f)) w
                in (Returned r, w'))
           | stp # rest \<Rightarrow>
               if \<not> automation_running w then
                 (let (r, w') = handled (finish (f_workflow_id f) (f_successful f) (f_total f))
                                        (log_feedback StoppedByUser None w)
                  in (Returned r, w'))
               else
                 (case loop_body env (f_workflow f) (f_index f) (f_total f) stp w of
                    (Inl e, w') \<Rightarrow> (Returned (fst (critical e w')), snd (critical e w'))
                  | (Inr ok, w') \<Rightarrow>
                      (AtLoopHead (f\<lparr>f_index := Suc (f_index f), f_remaining := rest,
                                      f_successful := (if ok then Suc (f_successful f)
                                                       else f_successful f)\<rparr>), w')))
      | Returned r \<Rightarrow> (Returned r, w))"

fun thread_steps :: "injector \<Rightarrow> nat \<Rightarrow> thread \<Rightarrow> world \<Rightarrow> thread \<times> world" where
  "thread_steps env 0 t w = (t, w)"
| "thread_steps env (Suc k) t w =
     (case thread_step env t w of (t', w') \<Rightarrow> thread_steps env k t' w')"

section \<open>Execution facade\<close>

datatype response = Started string | AlreadyRunning | StoppedOk

text \<open>The process: the shared state, the execution threads started so far, and the
  responses given so far.\<close>

record system =
  sys_world :: world
  sys_threads :: "thread list"
  sys_responses :: "response list"

text \<open>\<open>POST /api/execute/<workflow_id>\<close>; \<open>AlreadyRunning\<close> is the response with status 400.\<close>

definition execute_workflow :: "string \<Rightarrow> system \<Rightarrow> system" where
  "execute_workflow wid s =
     (if automation_running (sys_world s)
        then s\<lparr>sys_responses := sys_responses s @ [AlreadyRunning]\<rparr>
      else s\<lparr>sys_threads := sys_threads s @ [Created wid],
             sys_responses := sys_responses s @ [Started wid]\<rparr>)"

text \<open>\<open>POST /api/stop\<close>\<close>

definition stop_execution :: "system \<Rightarrow> system" where
  "stop_execution s =
     s\<lparr>sys_world := (sys_world s)\<lparr>automation_running := False\<rparr>,
       sys_responses := sys_responses s @ [StoppedOk]\<rparr>"

datatype event = PostExecute string | PostStop | Move nat

text \<open>An event is a request, or the next move of the thread with the given number.\<close>

fun handle :: "injector \<Rightarrow> event \<Rightarrow> system \<Rightarrow> system" where
  "handle env (PostExecute wid) s = execute_workflow wid s"
| "handle env PostStop s = stop_execution s"
| "handle env (Move k) s =
     (if k < length (sys_threads s)
        then (case thread_step env (sys_threads s ! k) (sys_world s) of
                (t', w') \<Rightarrow> s\<lparr>sys_world := w', sys_threads := (sys_threads s)[k := t']\<rparr>)
      else s)"

fun run_events :: "injector \<Rightarrow> event list \<Rightarrow> system \<Rightarrow> system" where
  "run_events env [] s = s"
| "run_events env (ev # evs) s = run_events env evs (handle env ev s)"

fun is_live :: "thread \<Rightarrow> bool" where
  "is_live (Returned r) = False"
| "is_live _ = True"

definition live_threads :: "system \<Rightarrow> nat" where
  "live_threads s = length (filter is_live (sys_threads s))"

section \<open>The automation runner\<close>

text \<open>
  \<open>AutomationRunner.execute_step\<close> and the methods it calls, of \<open>run_automation.py\<close>. The
  runner prints to the console; one constructor stands for each line it prints.
\<close>

datatype out =
    OutStep json string json
  | OutWouldExecute json
  | OutUnknownAction json
  | OutCompleted json
  | OutError json py_error
  | OutClickingAt json json
  | OutNoCoordinates json
  | OutHintDetection
  | OutNoText
  | OutTyping json
  | OutWaiting json
  | OutNoHotkey
  | OutPressing json
  | OutNoCommand
  | OutExecuting json
  | OutHintCommand

record console =
  printed :: "out list"
  injected :: "call list"
  elapsed :: rat

definition print :: "out \<Rightarrow> (console, unit) code" where
  "print l c = (Inr (), c\<lparr>printed := printed c @ [l]\<rparr>)"

definition call_injector :: "injector \<Rightarrow> call \<Rightarrow> (console, unit) code" where
  "call_injector env k c =
     (let c' = c\<lparr>injected := injected c @ [k]\<rparr>
      in case env (injected c) k of Some e \<Rightarrow> (Inl e, c') | None \<Rightarrow> (Inr (), c'))"

fun pause :: "json \<Rightarrow> (console, unit) code" where
  "pause (JInt n) c =
     (if n < 0 then (Inl ValueError, c) else (Inr (), c\<lparr>elapsed := elapsed c + of_int n\<rparr>))"
| "pause (JNum r) c =
     (if r < 0 then (Inl ValueError, c) else (Inr (), c\<lparr>elapsed := elapsed c + r\<rparr>))"
| "pause (JBool b) c = (Inr (), c\<lparr>elapsed := elapsed c + (if b then 1 else 0)\<rparr>)"
| "pause _ c = (Inl TypeError, c)"

definition execute_click :: "injector \<Rightarrow> json \<Rightarrow> (console, unit) code" where
  "execute_click env stp =
     and_then (lift (py_get stp ''args'' (JObj []))) (\<lambda>args.
     and_then (lift (py_get stp ''target'' (JStr []))) (\<lambda>target.
     and_then (lift (has_xy args)) (\<lambda>both.
       if both then
         and_then (lift (py_index args ''x'')) (\<lambda>x.
         and_then (lift (py_index args ''y'')) (\<lambda>y.
         and_then (print (OutClickingAt x y)) (\<lambda>_.
         call_injector env (Click x y))))
       else
         and_then (print (OutNoCoordinates target)) (\<lambda>_.
         print OutHintDetection))))"

definition execute_type :: "injector \<Rightarrow> json \<Rightarrow> (console, unit) code" where
  "execute_type env stp =
     and_then (lift (py_get stp ''args'' (JObj []))) (\<lambda>args.
     and_then (lift (py_get args ''text'' (JStr []))) (\<lambda>text.
       if \<not> py_truthy text then print OutNoText
       else
         and_then (print (OutTyping text)) (\<lambda>_.
         and_then (lift (has_xy args)) (\<lambda>both.
         and_then (if both then
                     and_then (lift (py_index args ''x'')) (\<lambda>x.
                     and_then (lift (py_index args ''y'')) (\<lambda>y.
                     and_then (call_injector env (Click x y)) (\<lambda>_.
                     pause (JNum (3 / 10)))))
                   else lift (Inr ())) (\<lambda>_.
         call_injector env (Write text))))))"

definition execute_wait :: "json \<Rightarrow> (console, unit) code" where
  "execute_wait stp =
     and_then (lift (py_get stp ''args'' (JObj []))) (\<lambda>args.
     and_then (lift (py_get args ''seconds'' (JInt 1))) (\<lambda>seconds.
     and_then (print (OutWaiting seconds)) (\<lambda>_.
     pause seconds)))"

definition execute_hotkey :: "injector \<Rightarrow> json \<Rightarrow> (console, unit) code" where
  "execute_hotkey env stp =
     and_then (lift (py_get stp ''args'' (JObj []))) (\<lambda>args.
     and_then (lift (py_get args ''keys'' (JStr []))) (\<lambda>keys.
       if \<not> py_truthy keys then print OutNoHotkey
       else
         and_then (print (OutPressing keys)) (\<lambda>_.
         and_then (lift (key_list_of keys)) (\<lambda>key_list.
         call_injector env (Hotkey key_list)))))"

definition execute_command :: "json \<Rightarrow> (console, unit) code" where
  "execute_command stp =
     and_then (lift (py_get stp ''command'' (JStr []))) (\<lambda>command.
       if \<not> py_truthy command then print OutNoCommand
       else
         and_then (print (OutExecuting command)) (\<lambda>_.
         print OutHintCommand))"

definition execute_step :: "injector \<Rightarrow> json \<Rightarrow> bool \<Rightarrow> (console, unit) code" where
  "execute_step env stp dry_run =
     and_then (lift (py_get stp ''step'' (JStr ''?''))) (\<lambda>step_num.
     and_then (lift (py_get stp ''action'' (JStr ''unknown''))) (\<lambda>action.
     and_then (lift (py_get stp ''description'' (JStr ''No description''))) (\<lambda>description.
     and_then (lift (py_upper action)) (\<lambda>upper.
     and_then (print (OutStep step_num upper description)) (\<lambda>_.
       if dry_run then print (OutWouldExecute action)
       else (\<lambda>c.
         case and_then
                (if action = JStr ''click'' then execute_click env stp
                 else if action = JStr ''type'' then execute_type env stp
                 else if action = JStr ''wait'' then execute_wait stp
                 else if action = JStr ''hotkey'' then execute_hotkey env stp
                 else if action = JStr ''execute'' then execute_command stp
                 else print (OutUnknownAction action))
                (\<lambda>_. print (OutCompleted step_num)) c of
           (Inl e, c') \<Rightarrow> print (OutError step_num e) c'
         | (Inr u, c') \<Rightarrow> (Inr (), c')))))))"

section \<open>Sequences of recorded runs\<close>




text \<open>The numbers of a workflow in the database; a workflow without a record has none.\<close>

definition total_runs :: "learning_data \<Rightarrow> string \<Rightarrow> int" where
  "total_runs d wid = (case success_rate d wid of None \<Rightarrow> 0 | Some st \<Rightarrow> total st)"




section \<open>Example inputs\<close>

text \<open>An injection library that never raises.\<close>

definition calm :: injector where
  "calm h c = None"

definition world_with :: "(string \<rightharpoonup> json stored) \<Rightarrow> world" where
  "world_with files =
     \<lparr>automation_running = False, execution_logs = [], workflow_files = files,
      learning_db = None, learning_db_writable = True, clock = 0, dispatched = []\<rparr>"

definition workflow_of :: "json list \<Rightarrow> json" where
  "workflow_of steps =
     JObj [(''workflow_id'', JStr ''wf-1''), (''automation_steps'', JArr steps)]"

definition wait_step :: "int \<Rightarrow> json" where
  "wait_step n =
     JObj [(''action'', JStr ''wait''), (''args'', JObj [(''seconds'', JInt n)]),
           (''description'', JStr ''Wait'')]"

definition click_without_coordinates :: json where
  "click_without_coordinates =
     JObj [(''action'', JStr ''click''), (''target'', JStr ''OK''), (''args'', JObj []),
           (''description'', JStr ''Click OK'')]"

definition type_empty_text :: json where
  "type_empty_text =
     JObj [(''action'', JStr ''type''), (''args'', JObj [(''text'', JStr [])]),
           (''description'', JStr ''Type'')]"

definition idle_system :: "world \<Rightarrow> system" where
  "idle_system w = \<lparr>sys_world = w, sys_threads = [], sys_responses = []\<rparr>"

definition empty_console :: console where
  "empty_console = \<lparr>printed = [], injected = [], elapsed = 0\<rparr>"

definition stats_29_of_100 :: learning_data where
  "stats_29_of_100 =
     default_learning_data
       \<lparr>success_rate := [''wf-1'' \<mapsto> \<lparr>total = 100, successful = 29, last_run = None\<rparr>]\<rparr>"


definition stored_workflow :: "json list \<Rightarrow> world" where
  "stored_workflow steps = world_with [''wf-1'' \<mapsto> Holds (workflow_of steps)]"

definition read_only :: "world \<Rightarrow> world" where
  "read_only w = w\<lparr>learning_db_writable := False\<rparr>"

text \<open>What the learning curve says of its runs: success, completed steps, total steps.\<close>

definition curve_summary :: "world \<Rightarrow> (bool \<times> int \<times> int) list" where
  "curve_summary w =
     (case learning_db w of
        Some (Holds d) \<Rightarrow> map (\<lambda>e. (success e, steps_completed e, total_steps e)) (learning_curve d)
      | _ \<Rightarrow> [])"

text \<open>What a run leaves behind: the value returned, the log without its reasoning entries,
  the calls on the injection library, the running flag, the learning curve.\<close>

definition no_reasoning :: "msg \<Rightarrow> bool" where
  "no_reasoning m = (case m of Reasoning r \<Rightarrow> False | _ \<Rightarrow> True)"

definition outcome ::
  "'a \<times> world \<Rightarrow> 'a \<times> msg list \<times> call list \<times> bool \<times> (bool \<times> int \<times> int) list" where
  "outcome rw =
     (fst rw, filter no_reasoning (map log_message (execution_logs (snd rw))),
      dispatched (snd rw), automation_running (snd rw), curve_summary (snd rw))"

fun returned :: "thread \<Rightarrow> bool option" where
  "returned (Returned r) = Some r"
| "returned _ = None"

definition system_outcome ::
  "system \<Rightarrow> (response list \<times> bool option list) \<times> msg list \<times> call list \<times> bool \<times> (bool \<times> int \<times> int) list" where
  "system_outcome s = outcome ((sys_responses s, map returned (sys_threads s)), sys_world s)"


section \<open>Properties of the binary64 model\<close>













lemma round_double_1: "round_double 1 = Finite 1"
  by code_simp

lemma round_double_100: "round_double 100 = Finite 100"
  by code_simp



lemma truediv_self:
  assumes "0 < n"
  shows "py_truediv (int n) (int n) = Inr (Finite 1)"
  using assms by (simp add: py_truediv_def round_double_1)

lemma fmul_one_100: "py_fmul (Finite 1) 100 = Finite 100"
  by (simp add: py_fmul_def round_double_100)


section \<open>The learning recorder\<close>

lemma trunc_29_of_100:
  "(case py_truediv 29 100 of Inl e \<Rightarrow> Inl e | Inr q \<Rightarrow> py_int (py_fmul q 100)) = Inr 28"
  by code_simp

text \<open>
  Claim C10. The success-rate query returns 0 for a workflow without recorded runs
  (\<open>get_success_rate_no_runs\<close> below). Otherwise it truncates the float \<open>(successful / total) * 100\<close>,
  which is not always the floor of the exact quotient: for 29 successful runs of 100 the
  float product is just below 29 and the query returns 28.
\<close>

theorem get_success_rate_29_of_100:
  "get_success_rate ((world_with Map.empty)\<lparr>learning_db := Some (Holds stats_29_of_100)\<rparr>) ''wf-1''
     = Inr 28 \<and> \<lfloor>(29 / 100) * 100 :: rat\<rfloor> = 29"
  by (simp add: get_success_rate_def load_learning_data_def world_with_def stats_29_of_100_def
        default_learning_data_def trunc_29_of_100)

lemma get_success_rate_no_runs:
  assumes "load_learning_data w = Inr d" "total_runs d wid = 0"
  shows "get_success_rate w wid = Inr 0"
  using assms by (simp add: get_success_rate_def total_runs_def split: option.splits)








section \<open>Sequencing and logging\<close>

lemma and_then_lift_Inr [simp]: "and_then (lift (Inr a)) f = f a"
  by (rule ext) (simp add: and_then_def lift_def)

lemma and_then_lift_Inl [simp]: "and_then (lift (Inl e)) f w = (Inl e, w)"
  by (simp add: and_then_def lift_def)

lemma and_then_say [simp]: "and_then (say m s) f w = f () (log_feedback m s w)"
  by (simp add: and_then_def say_def)

lemma log_feedback_fields [simp]:
  "automation_running (log_feedback m s w) = automation_running w"
  "workflow_files (log_feedback m s w) = workflow_files w"
  "learning_db (log_feedback m s w) = learning_db w"
  "learning_db_writable (log_feedback m s w) = learning_db_writable w"
  "clock (log_feedback m s w) = clock w"
  "dispatched (log_feedback m s w) = dispatched w"
  by (simp_all add: log_feedback_def)

lemma log_feedback_messages [simp]:
  "map log_message (execution_logs (log_feedback m s w)) =
     map log_message (execution_logs w) @ [m]"
  by (simp add: log_feedback_def)

lemma load_learning_data_log [simp]:
  "load_learning_data (log_feedback m s w) = load_learning_data w"
  by (simp add: load_learning_data_def)

section \<open>The end of a run\<close>







lemma finish_clears_flag:
  assumes "finish wid succ n w = (Inr r, w')"
  shows "\<not> automation_running w'"
  using assms
  by (auto simp: finish_def and_then_def lift_def say_def split: sum.splits prod.splits)

lemma critical_clears_flag [simp]:
  "\<not> automation_running (snd (critical e w))" "fst (critical e w) = False"
  by (simp_all add: critical_def)

lemma handled_finish_clears_flag:
  "\<not> automation_running (snd (handled (and_then m (\<lambda>succ. finish wid succ n)) w))"
  by (auto simp: handled_def and_then_def split: sum.splits prod.splits
        dest: finish_clears_flag)

lemma running_flag_after_run:
  "automation_running (snd (execute_workflow_with_feedback env wid w)) \<longleftrightarrow>
     workflow_files w wid = None"
proof (cases "workflow_files w wid")
  case None
  then show ?thesis by (simp add: execute_workflow_with_feedback_def prologue_def)
next
  case (Some st)
  show ?thesis
  proof (cases "prologue wid w")
    case (Pair res w1)
    have nf: "res \<noteq> Inr (Inl r)" for r
      using Pair Some
      by (cases st)
        (auto simp: prologue_def Let_def and_then_def lift_def say_def
           split: sum.splits prod.splits)
    show ?thesis
    proof (cases res)
      case (Inl e)
      then show ?thesis using Pair Some by (simp add: execute_workflow_with_feedback_def)
    next
      case (Inr v)
      then obtain workflow items where "v = Inr (workflow, items)"
        using nf by (cases v) auto
      then show ?thesis using Pair Some Inr
        by (simp add: execute_workflow_with_feedback_def handled_finish_clears_flag)
    qed
  qed
qed

section \<open>Evaluating runs\<close>

lemma upper_words:
  "map upper_char ''click'' = ''CLICK''" "map upper_char ''type'' = ''TYPE''"
  "map upper_char ''wait'' = ''WAIT''"
  by code_simp+

lemma lower_words:
  "map lower_char ''Wait'' = ''wait''" "map lower_char ''Click OK'' = ''click ok''"
  "map lower_char ''Type'' = ''type''"
  by code_simp+

text \<open>The definitions a run on a concrete world unfolds.\<close>

lemmas eval_defs =
  execute_workflow_with_feedback_def prologue_def handled_def critical_def
  loop_body_def attempt_def perform_action_def do_click_def do_type_def do_wait_def
  do_hotkey_def arg_of_def has_xy_def key_list_of_def inject_def
  get_reasoning_for_action_def reasoning_templates_def
  update_learning_data_def load_learning_data_def save_learning_data_def apply_update_def
  default_learning_data_def slice_last_def
  and_then_def lift_def say_def log_feedback_def
  world_with_def stored_workflow_def read_only_def workflow_of_def calm_def
  wait_step_def click_without_coordinates_def type_empty_text_def
  outcome_def system_outcome_def curve_summary_def no_reasoning_def
  thread_step_def execute_workflow_def stop_execution_def idle_system_def live_threads_def
  execute_step_def execute_type_def print_def call_injector_def empty_console_def
  Let_def


lemma and_then_Inr: "m w = (Inr a, w') \<Longrightarrow> and_then m f w = f a w'"
  by (simp add: and_then_def)

lemma load_learning_data_flag [simp]:
  "load_learning_data (w\<lparr>automation_running := b\<rparr>) = load_learning_data w"
  by (simp add: load_learning_data_def)

text \<open>The end of a run whose steps were all successful, of which none was, and of a run
  without steps.\<close>

lemma finish_all:
  "0 < n \<Longrightarrow> finish wid n n w =
     (case update_learning_data wid True (int n) (int n) (log_feedback (AllComplete n) None w) of
        (Inl e, w') \<Rightarrow> (Inl e, w')
      | (Inr u, w') \<Rightarrow> (Inr True, w'\<lparr>automation_running := False\<rparr>))"
  by (simp add: finish_def truediv_self fmul_one_100 and_then_def say_def split: prod.splits sum.splits)


lemma finish_no_steps: "finish wid succ 0 w = (Inl ZeroDivisionError, w)"
  by (simp add: finish_def py_truediv_def)

section \<open>Moves of the execution thread\<close>

lemma thread_steps_Returned [simp]: "thread_steps env m (Returned r) w = (Returned r, w)"
  by (induction m) (simp_all add: thread_step_def)

text \<open>The moves of a thread from the head of its loop end in what the loop and the code
  after it compute in one go.\<close>

lemma thread_steps_loop:
  assumes "f_remaining f = rs"
  shows "thread_steps env (Suc (length rs)) (AtLoopHead f) w =
     (Returned (fst (handled (and_then
          (for_loop env (f_workflow f) (f_total f) (f_index f) rs (f_successful f))
          (\<lambda>succ. finish (f_workflow_id f) succ (f_total f))) w)),
      snd (handled (and_then
          (for_loop env (f_workflow f) (f_total f) (f_index f) rs (f_successful f))
          (\<lambda>succ. finish (f_workflow_id f) succ (f_total f))) w))"
  using assms
proof (induction rs arbitrary: f w)
  case Nil
  then show ?case
    by (simp add: thread_step_def and_then_def handled_def split: prod.splits sum.splits)
next
  case (Cons stp rest)
  show ?case
  proof (cases "automation_running w")
    case False
    then show ?thesis using Cons.prems
      by (simp add: thread_step_def and_then_def handled_def split: prod.splits sum.splits)
  next
    case True
    obtain res w' where body:
      "loop_body env (f_workflow f) (f_index f) (f_total f) stp w = (res, w')"
      by (cases "loop_body env (f_workflow f) (f_index f) (f_total f) stp w")
    show ?thesis
    proof (cases res)
      case (Inl e)
      then show ?thesis using Cons.prems True body
        by (simp add: thread_step_def and_then_def handled_def)
    next
      case (Inr ok)
      define f' where "f' = f\<lparr>f_index := Suc (f_index f), f_remaining := rest,
                              f_successful := (if ok then Suc (f_successful f)
                                               else f_successful f)\<rparr>"
      have step: "thread_step env (AtLoopHead f) w = (AtLoopHead f', w')"
        using Cons.prems True body Inr by (simp add: thread_step_def f'_def)
      have rec: "handled (and_then
          (for_loop env (f_workflow f) (f_total f) (f_index f) (stp # rest) (f_successful f))
          (\<lambda>succ. finish (f_workflow_id f) succ (f_total f))) w =
        handled (and_then
          (for_loop env (f_workflow f') (f_total f') (f_index f') rest (f_successful f'))
          (\<lambda>succ. finish (f_workflow_id f') succ (f_total f'))) w'"
        using True body Inr by (simp add: handled_def and_then_def f'_def)
      have "f_remaining f' = rest" by (simp add: f'_def)
      from Cons.IH [OF this, of w'] step
      show ?thesis by (simp only: rec thread_steps.simps length_Cons prod.case)
    qed
  qed
qed

text \<open>Run to its return, a thread that nothing interferes with computes what
  \<open>execute_workflow_with_feedback\<close> does.\<close>

lemma thread_steps_run:
  "\<exists>m. thread_steps env m (Created wid) w =
         (Returned (fst (execute_workflow_with_feedback env wid w)),
          snd (execute_workflow_with_feedback env wid w))"
proof (cases "prologue wid w")
  case (Pair res w1)
  show ?thesis
  proof (cases res)
    case (Inl e)
    then have "thread_steps env 1 (Created wid) w =
         (Returned (fst (execute_workflow_with_feedback env wid w)),
          snd (execute_workflow_with_feedback env wid w))"
      using Pair by (simp add: thread_step_def execute_workflow_with_feedback_def)
    then show ?thesis by blast
  next
    case (Inr v)
    show ?thesis
    proof (cases v)
      case (Inl r)
      then have "thread_steps env 1 (Created wid) w =
         (Returned (fst (execute_workflow_with_feedback env wid w)),
          snd (execute_workflow_with_feedback env wid w))"
        using Pair Inr by (simp add: thread_step_def execute_workflow_with_feedback_def)
      then show ?thesis by blast
    next
      case (Inr p)
      obtain workflow items where p: "p = (workflow, items)" by (cases p)
      define f where "f = \<lparr>f_workflow_id = wid, f_workflow = workflow,
          f_total = length items, f_index = 1, f_remaining = items, f_successful = 0\<rparr>"
      have first: "thread_step env (Created wid) w = (AtLoopHead f, w1)"
        using Pair \<open>res = Inr v\<close> Inr p by (simp add: thread_step_def f_def)
      have "f_remaining f = items" by (simp add: f_def)
      from thread_steps_loop [OF this, of env w1] first
      have "thread_steps env (Suc (Suc (length items))) (Created wid) w =
         (Returned (fst (execute_workflow_with_feedback env wid w)),
          snd (execute_workflow_with_feedback env wid w))"
        using Pair \<open>res = Inr v\<close> Inr p
        by (simp add: execute_workflow_with_feedback_def f_def)
      then show ?thesis by blast
    qed
  qed
qed






section \<open>Requests and moves\<close>



section \<open>The claims on the controller\<close>


subsection \<open>One run at a time\<close>

text \<open>A start request that finds the running flag set is answered with the conflict
  response and starts no thread.\<close>

lemma execute_workflow_rejects_while_running:
  assumes "automation_running (sys_world s)"
  shows "execute_workflow wid s = s\<lparr>sys_responses := sys_responses s @ [AlreadyRunning]\<rparr>"
  using assms by (simp add: execute_workflow_def)


text \<open>
  Claim C1. The running flag is set by the thread, not by the request that starts it, and
  a stop request clears it while the thread is still alive. So the flag does not say that
  a run is in progress: after a start, the first move of its thread, a stop and a
  second start, the second start is accepted, two threads are alive, and both write
  their step entries to the one log.
\<close>

theorem stop_then_start_runs_two_threads:
  "system_outcome (run_events calm
      [PostExecute ''wf-1'', Move 0, PostStop, PostExecute ''wf-1'', Move 1, Move 0, Move 1]
      (idle_system (stored_workflow [wait_step 1, wait_step 1]))) =
     (([Started ''wf-1'', StoppedOk, Started ''wf-1''], [None, None]),
      [Starting ''wf-1'', TotalSteps 2, WaitPrepare,
       StepHeader 1 2 ''WAIT'', Waiting (JInt 1), WaitComplete,
       StepHeader 1 2 ''WAIT'', Waiting (JInt 1), WaitComplete],
      [], True, []) \<and>
   live_threads (run_events calm
      [PostExecute ''wf-1'', Move 0, PostStop, PostExecute ''wf-1'', Move 1, Move 0, Move 1]
      (idle_system (stored_workflow [wait_step 1, wait_step 1]))) = 2"
  using upper_words lower_words by (simp add: eval_defs)


subsection \<open>A stop between two steps\<close>







subsection \<open>A workflow without steps\<close>

text \<open>
  Claim C5. For an empty step list the division \<open>successful_steps / len(steps)\<close> raises
  \<open>ZeroDivisionError\<close>; the outer handler logs it as a critical error and the function
  returns \<open>False\<close> without recording the run.
\<close>

theorem empty_workflow_is_critical_error:
  "outcome (execute_workflow_with_feedback calm ''wf-1'' (stored_workflow [])) =
     (False, [Starting ''wf-1'', TotalSteps 0, WaitPrepare, Critical ZeroDivisionError],
      [], False, [])"
  by (simp add: eval_defs finish_no_steps)


subsection \<open>A click without coordinates\<close>

text \<open>
  Claim C6 as stated fails: a workflow of one click step without coordinates runs to the
  all-successful entry, and is recorded as a success of one step of one.
\<close>

theorem click_without_coordinates_counterexample:
  "outcome (execute_workflow_with_feedback calm ''wf-1''
              (stored_workflow [click_without_coordinates])) =
     (True,
      [Starting ''wf-1'', TotalSteps 1, WaitPrepare, StepHeader 1 1 ''CLICK'',
       Clicking (JStr ''OK''), NoCoordinates, AllComplete 1],
      [], False, [(True, 1, 1)])"
  using upper_words lower_words by (simp add: eval_defs finish_all)


text \<open>
  Claim C6, as the code has it. A click step whose \<open>args\<close> object lacks \<open>x\<close> or \<open>y\<close> calls the
  injection library for nothing, logs that there are no coordinates, and counts as a
  successful step; the loop goes on with the next step.
\<close>

theorem click_without_coordinates_is_skipped:
  assumes "py_get stp ''action'' JNull = Inr (JStr ''click'')"
      and "get_reasoning_for_action stp workflow = Inr reason"
      and "py_get stp ''target'' (JStr []) = Inr target"
      and "py_get stp ''args'' (JObj []) = Inr (JObj args)"
      and "''x'' \<notin> set (map fst args) \<or> ''y'' \<notin> set (map fst args)"
  shows "fst (loop_body env workflow i n stp w) = Inr True \<and>
         dispatched (snd (loop_body env workflow i n stp w)) = dispatched w \<and>
         map log_message (execution_logs (snd (loop_body env workflow i n stp w))) =
           map log_message (execution_logs w) @
             [StepHeader i n ''CLICK'', Reasoning reason, Clicking target, NoCoordinates] \<and>
         automation_running (snd (loop_body env workflow i n stp w)) = automation_running w \<and>
         (automation_running w \<longrightarrow>
            for_loop env workflow n i (stp # rest) succ w =
              for_loop env workflow n (Suc i) rest (Suc succ)
                (snd (loop_body env workflow i n stp w)))"
proof -
  obtain kvs where stp: "stp = JObj kvs" using assms(1) by (cases stp) simp_all
  have xy: "has_xy (JObj args) = Inr False"
    using assms(5) by (auto simp: has_xy_def split: bool.splits)
  have body: "loop_body env workflow i n stp w =
      (Inr True,
       (log_feedback NoCoordinates None
         (log_feedback (Clicking target) None
           (log_feedback (Reasoning reason) None
             (log_feedback (StepHeader i n ''CLICK'') (Some stp) w))))
         \<lparr>clock := clock w + 1 / 2\<rparr>)"
    using assms(1-4) xy upper_words(1)
    by (simp add: loop_body_def stp attempt_def perform_action_def do_click_def
          and_then_def lift_def say_def)
  show ?thesis by (simp add: body)
qed


theorem click_without_coordinates_is_skipped_witness:
  "py_get click_without_coordinates ''action'' JNull = Inr (JStr ''click'') \<and>
   py_get click_without_coordinates ''args'' (JObj []) = Inr (JObj []) \<and>
   fst (loop_body calm (workflow_of [click_without_coordinates]) 1 1 click_without_coordinates
          (stored_workflow [click_without_coordinates])) = Inr True \<and>
   dispatched (snd (loop_body calm (workflow_of [click_without_coordinates]) 1 1
          click_without_coordinates (stored_workflow [click_without_coordinates]))) = []"
proof -
  have h1: "py_get click_without_coordinates ''action'' JNull = Inr (JStr ''click'')"
    by (simp add: click_without_coordinates_def)
  have h2: "get_reasoning_for_action click_without_coordinates
              (workflow_of [click_without_coordinates]) =
            Inr ''I need to click this element to proceed with the workflow''"
    using lower_words
    by (simp add: get_reasoning_for_action_def click_without_coordinates_def
          reasoning_templates_def)
  have h3: "py_get click_without_coordinates ''target'' (JStr []) = Inr (JStr ''OK'')"
    by (simp add: click_without_coordinates_def)
  have h4: "py_get click_without_coordinates ''args'' (JObj []) = Inr (JObj [])"
    by (simp add: click_without_coordinates_def)
  have h5: "''x'' \<notin> set (map fst ([] :: (string \<times> json) list)) \<or>
            ''y'' \<notin> set (map fst ([] :: (string \<times> json) list))"
    by simp
  from click_without_coordinates_is_skipped [OF h1 h2 h3 h4 h5, of calm 1 1
         "stored_workflow [click_without_coordinates]"] h1 h4
  show ?thesis by (simp add: stored_workflow_def world_with_def)
qed


subsection \<open>A learning database that cannot be written\<close>







subsection \<open>Errors outside the steps\<close>

text \<open>An exception that reaches the outer handler is logged as a critical error, and the
  running flag is cleared.\<close>

lemma raised_errors_clear_flag:
  "fst (handled m w) = False \<or> (\<exists>r w'. m w = (Inr r, w'))"
  "m w = (Inl e, w') \<Longrightarrow> handled m w = critical e w'"
  "\<not> automation_running (snd (critical e w))"
  "log_message (last (execution_logs (snd (critical e w)))) = Critical e"
  by (auto simp: handled_def critical_def log_feedback_def split: prod.splits sum.splits)


text \<open>
  Claim C8. A workflow file that does not exist is no exception: the function logs that
  the file was not found and returns at once, without clearing the running flag it has
  set. Every later start request is then answered with the conflict response.
\<close>

theorem missing_workflow_file_leaves_flag_set:
  "outcome (execute_workflow_with_feedback calm ''absent'' (stored_workflow [wait_step 1])) =
     (False, [NotFound], [], True, []) \<and>
   fst (system_outcome (run_events calm [PostExecute ''absent'', Move 0, PostExecute ''wf-1'']
          (idle_system (stored_workflow [wait_step 1])))) =
     ([Started ''absent'', AlreadyRunning], [Some False])"
  by (simp add: eval_defs)


subsection \<open>Typing an empty text\<close>

text \<open>
  Claim C9. In the dashboard controller a type step with an empty text calls the
  injection library with the empty text and logs that it typed successfully; no warning
  is logged. The automation runner does what the claim says: it prints the warning,
  types nothing and reports the step as completed.
\<close>

theorem empty_type_step_logs_no_warning:
  "outcome (loop_body calm (workflow_of [type_empty_text]) 1 1 type_empty_text
              (stored_workflow [type_empty_text])) =
     (Inr True, [StepHeader 1 1 ''TYPE'', Typing (JStr []), Typed], [Write (JStr [])],
      False, []) \<and>
   fst (execute_step calm type_empty_text False empty_console) = Inr () \<and>
   printed (snd (execute_step calm type_empty_text False empty_console)) =
     [OutStep (JStr ''?'') ''TYPE'' (JStr ''Type''), OutNoText, OutCompleted (JStr ''?'')] \<and>
   injected (snd (execute_step calm type_empty_text False empty_console)) = []"
  using upper_words lower_words by (simp add: eval_defs)

end
